theory Spec2Isabelle
  imports Complex_Main "HOL-Library.Multiset"
begin

section \<open>JavaScript numbers\<close>

text \<open>
  The amounts of the debt tracker are JavaScript numbers. A number is modelled as
  \<open>NaN\<close>, one of the two infinities, or a finite value; a finite value is the rational
  it denotes and arithmetic on finite values is exact: rounding to the nearest double
  and overflow to an infinity are not modelled, and negative zero is identified with
  zero (so a division by zero is a division by \<open>+0\<close>). What the model keeps is what
  the guards and the clamps of the program depend on: \<open>NaN\<close> propagates through
  arithmetic, every comparison with \<open>NaN\<close> is false, and \<open>Math.max\<close> and
  \<open>Math.min\<close> return \<open>NaN\<close> when an argument is \<open>NaN\<close>.
\<close>

datatype jsnum = NaN | NegInf | Fin rat | PosInf


fun js_neg :: "jsnum \<Rightarrow> jsnum" where
  "js_neg NaN = NaN"
| "js_neg NegInf = PosInf"
| "js_neg (Fin a) = Fin (- a)"
| "js_neg PosInf = NegInf"

fun js_add :: "jsnum \<Rightarrow> jsnum \<Rightarrow> jsnum" where
  "js_add NaN b = NaN"
| "js_add (Fin a) NaN = NaN"
| "js_add (Fin a) NegInf = NegInf"
| "js_add (Fin a) (Fin b) = Fin (a + b)"
| "js_add (Fin a) PosInf = PosInf"
| "js_add NegInf NaN = NaN"
| "js_add NegInf NegInf = NegInf"
| "js_add NegInf (Fin b) = NegInf"
| "js_add NegInf PosInf = NaN"
| "js_add PosInf NaN = NaN"
| "js_add PosInf NegInf = NaN"
| "js_add PosInf (Fin b) = PosInf"
| "js_add PosInf PosInf = PosInf"

definition js_sub :: "jsnum \<Rightarrow> jsnum \<Rightarrow> jsnum" where
  "js_sub a b = js_add a (js_neg b)"



text \<open>\<open>a <= b\<close> and \<open>a < b\<close> of JavaScript: false as soon as one side is \<open>NaN\<close>.\<close>

fun js_le :: "jsnum \<Rightarrow> jsnum \<Rightarrow> bool" where
  "js_le NaN b = False"
| "js_le NegInf b = (b \<noteq> NaN)"
| "js_le (Fin a) NaN = False"
| "js_le (Fin a) NegInf = False"
| "js_le (Fin a) (Fin b) = (a \<le> b)"
| "js_le (Fin a) PosInf = True"
| "js_le PosInf b = (b = PosInf)"

definition js_lt :: "jsnum \<Rightarrow> jsnum \<Rightarrow> bool" where
  "js_lt a b = (a \<noteq> NaN \<and> b \<noteq> NaN \<and> \<not> js_le b a)"

definition isNaN :: "jsnum \<Rightarrow> bool" where
  "isNaN a = (a = NaN)"

definition Math_max :: "jsnum \<Rightarrow> jsnum \<Rightarrow> jsnum" where
  "Math_max a b = (if a = NaN \<or> b = NaN then NaN else if js_le a b then b else a)"


fun is_finite :: "jsnum \<Rightarrow> bool" where
  "is_finite (Fin a) = True"
| "is_finite b = False"

subsection \<open>parseFloat\<close>

text \<open>
  \<open>parseFloat\<close> skips leading white space, reads the longest prefix that is a signed
  decimal literal (\<open>Infinity\<close>, or digits with an optional fraction and an optional
  exponent) and ignores the rest; when there is no such prefix the result is \<open>NaN\<close>.
  Only the white space of ASCII is recognised here.
\<close>

definition is_ws :: "char \<Rightarrow> bool" where
  "is_ws c = (c \<in> set [CHR 0x09, CHR 0x0A, CHR 0x0B, CHR 0x0C, CHR 0x0D, CHR '' ''])"

definition is_digit :: "char \<Rightarrow> bool" where
  "is_digit c = (c \<in> set ''0123456789'')"

definition digit_val :: "char \<Rightarrow> nat" where
  "digit_val c = (of_char c :: nat) - 48"

definition digits_val :: "string \<Rightarrow> nat" where
  "digits_val ds = foldl (\<lambda>n c. 10 * n + digit_val c) 0 ds"

definition pow10 :: "int \<Rightarrow> rat" where
  "pow10 e = (if 0 \<le> e then 10 ^ nat e else 1 / 10 ^ nat (- e))"

definition parse_exponent :: "string \<Rightarrow> int" where
  "parse_exponent r =
     (case r of
        [] \<Rightarrow> 0
      | c # r1 \<Rightarrow>
          if c = CHR ''e'' \<or> c = CHR ''E'' then
            (case r1 of
               [] \<Rightarrow> 0
             | d # r2 \<Rightarrow>
                 if d = CHR ''+'' then int (digits_val (takeWhile is_digit r2))
                 else if d = CHR ''-'' then - int (digits_val (takeWhile is_digit r2))
                 else int (digits_val (takeWhile is_digit r1)))
          else 0)"

definition parse_unsigned :: "string \<Rightarrow> jsnum" where
  "parse_unsigned s =
     (if take 8 s = ''Infinity'' then PosInf
      else
        let ip = takeWhile is_digit s;
            r1 = dropWhile is_digit s;
            dot = (r1 \<noteq> [] \<and> hd r1 = CHR ''.'');
            fp = (if dot then takeWhile is_digit (tl r1) else []);
            r2 = (if dot then dropWhile is_digit (tl r1) else r1)
        in if ip = [] \<and> fp = [] then NaN
           else Fin (of_nat (digits_val (ip @ fp)) / 10 ^ length fp * pow10 (parse_exponent r2)))"

definition parseFloat :: "string \<Rightarrow> jsnum" where
  "parseFloat s =
     (case dropWhile is_ws s of
        [] \<Rightarrow> NaN
      | c # r \<Rightarrow>
          if c = CHR ''-'' then js_neg (parse_unsigned r)
          else if c = CHR ''+'' then parse_unsigned r
          else parse_unsigned (c # r))"

section \<open>Data model\<close>

text \<open>The interfaces \<open>Debt\<close>, \<open>Payment\<close> and \<open>AnalysisResult\<close>.\<close>

record debt =
  debt_id :: string
  creditorName :: string
  totalAmount :: jsnum
  startDate :: string

record payment =
  payment_id :: string
  debtId :: string
  date :: string
  amount :: jsnum
  payment_note :: string

datatype tone = positive | neutral | concerned

record analysis_result =
  message :: string
  estimatedCompletion :: "string option"
  tone :: tone

text \<open>
  The state of the \<open>App\<close> component: the two collections, the selection, the three
  modal flags, the form fields and the cached analysis.
\<close>

record app_state =
  debts :: "debt list"
  payments :: "payment list"
  selectedDebtId :: "string option"
  showAddDebtModal :: bool
  showAddPaymentModal :: bool
  showEditTotalModal :: bool
  newCreditor :: string
  newTotalDebt :: string
  newPaymentAmount :: string
  newPaymentDate :: string
  newPaymentNote :: string
  editingTotalAmount :: string
  aiAnalysis :: "analysis_result option"

section \<open>Derived data for the selected debt\<close>

definition selectedDebt :: "app_state \<Rightarrow> debt option" where
  "selectedDebt s = find (\<lambda>d. Some (debt_id d) = selectedDebtId s) (debts s)"

definition currentDebtPayments :: "app_state \<Rightarrow> payment list" where
  "currentDebtPayments s = filter (\<lambda>p. Some (debtId p) = selectedDebtId s) (payments s)"








section \<open>Balance history\<close>

text \<open>
  \<open>Array.prototype.sort\<close> with a comparison function returns a rearrangement of the
  array. The language fixes which one only when the comparison is consistent; the
  result is then the stable ascending arrangement, where \<open>a\<close> comes after \<open>b\<close> when
  \<open>cmp a b > 0\<close>, and inserting the elements one by one from the right computes it.
  The comparison of the chart is the difference of two timestamps. It is consistent
  when every date parses. A date that does not parse has the timestamp \<open>NaN\<close>, every
  comparison with it yields \<open>NaN\<close>, which counts as equal, and the order of the result
  is then left to the engine: the model takes it from the parameter \<open>engine\<close>, of
  which the language only says that it rearranges.
\<close>

fun insert_by :: "('a \<Rightarrow> 'a \<Rightarrow> jsnum) \<Rightarrow> 'a \<Rightarrow> 'a list \<Rightarrow> 'a list" where
  "insert_by cmp x [] = [x]"
| "insert_by cmp x (y # ys) =
     (if js_lt (Fin 0) (cmp x y) then y # insert_by cmp x ys else x # y # ys)"

definition stable_sort :: "('a \<Rightarrow> 'a \<Rightarrow> jsnum) \<Rightarrow> 'a list \<Rightarrow> 'a list" where
  "stable_sort cmp xs = foldr (insert_by cmp) xs []"

record chart_point =
  point_date :: string
  balance :: jsnum
  paid :: jsnum

text \<open>
  The two library calls on dates are parameters of the model: \<open>formatDate\<close> (a call of
  \<open>toLocaleDateString\<close>) and \<open>getTime\<close>, the value of \<open>new Date(str).getTime()\<close>,
  which is \<open>NaN\<close> for a string that is not a date.
\<close>

definition by_date :: "(string \<Rightarrow> jsnum) \<Rightarrow> payment \<Rightarrow> payment \<Rightarrow> jsnum" where
  "by_date getTime a b = js_sub (getTime (date a)) (getTime (date b))"

text \<open>The body of \<open>sortedPayments.forEach\<close>, with \<open>currentBalance\<close> as an argument.\<close>

fun chart_points :: "(string \<Rightarrow> string) \<Rightarrow> jsnum \<Rightarrow> payment list \<Rightarrow> chart_point list" where
  "chart_points formatDate currentBalance [] = []"
| "chart_points formatDate currentBalance (p # ps) =
     \<lparr>point_date = formatDate (date p),
      balance = Math_max (Fin 0) (js_sub currentBalance (amount p)),
      paid = amount p\<rparr>
     # chart_points formatDate (js_sub currentBalance (amount p)) ps"

definition dates_parse :: "(string \<Rightarrow> jsnum) \<Rightarrow> payment list \<Rightarrow> bool" where
  "dates_parse getTime ps = list_all (\<lambda>p. is_finite (getTime (date p))) ps"

definition sortedPayments ::
  "(payment list \<Rightarrow> payment list) \<Rightarrow> (string \<Rightarrow> jsnum) \<Rightarrow> payment list \<Rightarrow> payment list" where
  "sortedPayments engine getTime ps =
     (if dates_parse getTime ps then stable_sort (by_date getTime) ps else engine ps)"

definition chartData ::
  "(string \<Rightarrow> string) \<Rightarrow> (payment list \<Rightarrow> payment list) \<Rightarrow> (string \<Rightarrow> jsnum) \<Rightarrow>
   app_state \<Rightarrow> chart_point list" where
  "chartData formatDate engine getTime s =
     (case selectedDebt s of
        None \<Rightarrow> []
      | Some d \<Rightarrow>
          \<lparr>point_date = formatDate (startDate d), balance = totalAmount d, paid = Fin 0\<rparr>
          # chart_points formatDate (totalAmount d)
              (sortedPayments engine getTime (currentDebtPayments s)))"

section \<open>Action handlers\<close>

text \<open>
  The handlers read the form fields of the state. What they take from the environment
  is an argument: the identifier returned by \<open>crypto.randomUUID()\<close>, the current time
  as \<open>toISOString\<close> prints it (\<open>now\<close>, and \<open>today\<close> for its date part), and the answer
  of \<open>window.confirm\<close>. A string is falsy when it is empty; the selection is falsy when
  it is \<open>null\<close> or the empty string.
\<close>

definition handleCreateDebt :: "string \<Rightarrow> string \<Rightarrow> app_state \<Rightarrow> app_state" where
  "handleCreateDebt uuid now s =
     (if newCreditor s = [] \<or> newTotalDebt s = [] then s
      else s\<lparr>debts := debts s @
                 [\<lparr>debt_id = uuid, creditorName = newCreditor s,
                   totalAmount = parseFloat (newTotalDebt s), startDate = now\<rparr>],
             newCreditor := [],
             newTotalDebt := [],
             showAddDebtModal := False\<rparr>)"

definition handleDeleteDebt :: "bool \<Rightarrow> string \<Rightarrow> app_state \<Rightarrow> app_state" where
  "handleDeleteDebt confirmed did s =
     (if confirmed then
        s\<lparr>debts := filter (\<lambda>d. debt_id d \<noteq> did) (debts s),
          payments := filter (\<lambda>p. debtId p \<noteq> did) (payments s),
          selectedDebtId := (if selectedDebtId s = Some did then None else selectedDebtId s)\<rparr>
      else s)"

definition handleAddPayment :: "string \<Rightarrow> string \<Rightarrow> app_state \<Rightarrow> app_state" where
  "handleAddPayment uuid today s =
     (case selectedDebtId s of
        None \<Rightarrow> s
      | Some sel \<Rightarrow>
          if newPaymentAmount s = [] \<or> sel = [] then s
          else s\<lparr>payments := payments s @
                     [\<lparr>payment_id = uuid, debtId = sel, date = newPaymentDate s,
                       amount = parseFloat (newPaymentAmount s),
                       payment_note = newPaymentNote s\<rparr>],
                 newPaymentAmount := [],
                 newPaymentNote := [],
                 newPaymentDate := today,
                 showAddPaymentModal := False,
                 aiAnalysis := None\<rparr>)"

definition handleDeletePayment :: "bool \<Rightarrow> string \<Rightarrow> app_state \<Rightarrow> app_state" where
  "handleDeletePayment confirmed pid s =
     (if confirmed then
        s\<lparr>payments := filter (\<lambda>p. payment_id p \<noteq> pid) (payments s), aiAnalysis := None\<rparr>
      else s)"

definition handleSaveTotal :: "app_state \<Rightarrow> app_state" where
  "handleSaveTotal s =
     (case selectedDebt s of
        None \<Rightarrow> s
      | Some sd \<Rightarrow>
          if editingTotalAmount s = [] then s
          else
            let newTotal = parseFloat (editingTotalAmount s)
            in if isNaN newTotal \<or> js_le newTotal (Fin 0) then s
               else s\<lparr>debts := map (\<lambda>d. if debt_id d = debt_id sd
                                           then d\<lparr>totalAmount := newTotal\<rparr> else d) (debts s),
                      showEditTotalModal := False,
                      aiAnalysis := None\<rparr>)"

text \<open>
  The list view renders one card per element of \<open>debts\<close>, and the click handler of a
  card selects the identifier of that element: a debt that is not in the collection
  has no card to click.
\<close>

definition selectCard :: "string \<Rightarrow> app_state \<Rightarrow> app_state" where
  "selectCard did s =
     (if did \<in> set (map debt_id (debts s)) then s\<lparr>selectedDebtId := Some did\<rparr> else s)"

datatype command =
    ClickCard string
  | ClickBack
  | TypeCreditor string
  | TypeTotalDebt string
  | TypePaymentAmount string
  | TypePaymentDate string
  | TypePaymentNote string
  | TypeEditingTotal string
  | SubmitCreateDebt string string
  | ClickDeleteDebt bool string
  | SubmitAddPayment string string
  | ClickDeletePayment bool string
  | SubmitSaveTotal
  | AnalysisArrived analysis_result
  | CloseAnalysis

text \<open>
  One command per state update that the views bind to a control. Opening a modal only
  sets its flag; \<open>handleOpenEditTotal\<close> also fills \<open>editingTotalAmount\<close> with the
  printed total, which \<open>TypeEditingTotal\<close> covers.
\<close>

fun step :: "command \<Rightarrow> app_state \<Rightarrow> app_state" where
  "step (ClickCard did) s = selectCard did s"
| "step ClickBack s = s\<lparr>selectedDebtId := None\<rparr>"
| "step (TypeCreditor v) s = s\<lparr>newCreditor := v\<rparr>"
| "step (TypeTotalDebt v) s = s\<lparr>newTotalDebt := v\<rparr>"
| "step (TypePaymentAmount v) s = s\<lparr>newPaymentAmount := v\<rparr>"
| "step (TypePaymentDate v) s = s\<lparr>newPaymentDate := v\<rparr>"
| "step (TypePaymentNote v) s = s\<lparr>newPaymentNote := v\<rparr>"
| "step (TypeEditingTotal v) s = s\<lparr>editingTotalAmount := v\<rparr>"
| "step (SubmitCreateDebt uuid now) s = handleCreateDebt uuid now s"
| "step (ClickDeleteDebt confirmed did) s = handleDeleteDebt confirmed did s"
| "step (SubmitAddPayment uuid today) s = handleAddPayment uuid today s"
| "step (ClickDeletePayment confirmed pid) s = handleDeletePayment confirmed pid s"
| "step SubmitSaveTotal s = handleSaveTotal s"
| "step (AnalysisArrived r) s = s\<lparr>aiAnalysis := Some r\<rparr>"
| "step CloseAnalysis s = s\<lparr>aiAnalysis := None\<rparr>"

definition run :: "command list \<Rightarrow> app_state \<Rightarrow> app_state" where
  "run cs s = foldl (\<lambda>s c. step c s) s cs"

text \<open>
  The state of a freshly mounted component whose collections have been loaded: every
  other field has the value its \<open>useState\<close> call gives it (\<open>today\<close> is the date part of
  the current time).
\<close>

definition mounted :: "string \<Rightarrow> debt list \<Rightarrow> payment list \<Rightarrow> app_state" where
  "mounted today ds ps =
     \<lparr>debts = ds, payments = ps, selectedDebtId = None,
      showAddDebtModal = False, showAddPaymentModal = False, showEditTotalModal = False,
      newCreditor = [], newTotalDebt = [],
      newPaymentAmount = [], newPaymentDate = today, newPaymentNote = [],
      editingTotalAmount = [], aiAnalysis = None\<rparr>"

section \<open>The blob store\<close>

text \<open>
  \<open>localStorage\<close> holds four keys. A key is absent (\<open>None\<close>) or holds a string: the
  empty string, a text that \<open>JSON.parse\<close> rejects, or the JSON text of a value, which
  the model keeps as the value itself.
\<close>

datatype 'a blob = EmptyString | Malformed | Json 'a

record legacy_settings =
  legacy_isSet :: bool
  legacy_creditorName :: string
  legacy_totalAmount :: jsnum
  legacy_startDate :: string

record legacy_payment =
  legacy_id :: string
  legacy_date :: string
  legacy_amount :: jsnum
  legacy_note :: string

record local_storage =
  debts_v1 :: "debt list blob option"
  payments_v2 :: "payment list blob option"
  settings_v1 :: "legacy_settings blob option"
  payments_v1 :: "legacy_payment list blob option"

text \<open>\<open>if (str)\<close> on the result of \<open>getItem\<close>: \<open>null\<close> and the empty string are falsy.\<close>

definition truthy :: "'a blob option \<Rightarrow> bool" where
  "truthy v = (v \<noteq> None \<and> v \<noteq> Some EmptyString)"

datatype js_error = SyntaxError

definition migrate_payment :: "string \<Rightarrow> legacy_payment \<Rightarrow> payment" where
  "migrate_payment newId p =
     \<lparr>payment_id = legacy_id p, debtId = newId, date = legacy_date p,
      amount = legacy_amount p, payment_note = legacy_note p\<rparr>"

text \<open>
  The legacy payments as the \<open>try\<close> block reads them: \<open>None\<close> when \<open>JSON.parse\<close> throws
  (the \<open>catch\<close> then leaves state and store as they are).
\<close>

definition migratedPayments :: "string \<Rightarrow> local_storage \<Rightarrow> payment list option" where
  "migratedPayments newId st =
     (if truthy (payments_v1 st) then
        (case payments_v1 st of
           Some (Json oldPayments) \<Rightarrow> Some (map (migrate_payment newId) oldPayments)
         | _ \<Rightarrow> None)
      else Some [])"

text \<open>
  The initialisation effect. \<open>newId\<close> is what \<open>crypto.randomUUID()\<close> returns. The two
  calls of \<open>JSON.parse\<close> on the current keys are outside the \<open>try\<close> block: an error there
  leaves the effect.
\<close>

definition initialize :: "string \<Rightarrow> local_storage \<Rightarrow> app_state \<Rightarrow> js_error + app_state \<times> local_storage" where
  "initialize newId st s =
     (if truthy (debts_v1 st) then
        (case debts_v1 st of
           Some (Json ds) \<Rightarrow>
             if truthy (payments_v2 st) then
               (case payments_v2 st of
                  Some (Json ps) \<Rightarrow> Inr (s\<lparr>debts := ds, payments := ps\<rparr>, st)
                | _ \<Rightarrow> Inl SyntaxError)
             else Inr (s\<lparr>debts := ds\<rparr>, st)
         | _ \<Rightarrow> Inl SyntaxError)
      else if truthy (settings_v1 st) then
        (case settings_v1 st of
           Some (Json oldSettings) \<Rightarrow>
             if legacy_isSet oldSettings then
               let migratedDebt =
                 \<lparr>debt_id = newId, creditorName = legacy_creditorName oldSettings,
                  totalAmount = legacy_totalAmount oldSettings,
                  startDate = legacy_startDate oldSettings\<rparr>
               in (case migratedPayments newId st of
                     None \<Rightarrow> Inr (s, st)
                   | Some mps \<Rightarrow>
                       Inr (s\<lparr>debts := [migratedDebt], payments := mps\<rparr>,
                            st\<lparr>debts_v1 := Some (Json [migratedDebt]),
                               payments_v2 := Some (Json mps)\<rparr>))
             else Inr (s, st)
         | _ \<Rightarrow> Inr (s, st))
      else Inr (s, st))"

subsection \<open>Persistence effects\<close>

definition persistDebts :: "debt list \<Rightarrow> local_storage \<Rightarrow> local_storage" where
  "persistDebts ds st =
     (if 0 < length ds then st\<lparr>debts_v1 := Some (Json ds)\<rparr>
      else if truthy (debts_v1 st) then st\<lparr>debts_v1 := Some (Json [])\<rparr>
      else st)"

definition persistPayments :: "debt list \<Rightarrow> payment list \<Rightarrow> local_storage \<Rightarrow> local_storage" where
  "persistPayments ds ps st =
     (if 0 < length ps \<or> 0 < length ds then st\<lparr>payments_v2 := Some (Json ps)\<rparr> else st)"

text \<open>
  After a render the effects run in the order of their declaration, each one when one
  of its dependencies has been set: \<open>[debts]\<close> for the first, \<open>[payments, debts]\<close> for
  the second.
\<close>

definition run_effects :: "bool \<Rightarrow> bool \<Rightarrow> app_state \<Rightarrow> local_storage \<Rightarrow> local_storage" where
  "run_effects debts_set payments_set s st =
     (let st1 = (if debts_set then persistDebts (debts s) st else st)
      in if payments_set \<or> debts_set then persistPayments (debts s) (payments s) st1 else st1)"

section \<open>Invariants of the collections\<close>

definition no_orphans :: "debt list \<Rightarrow> payment list \<Rightarrow> bool" where
  "no_orphans ds ps = list_all (\<lambda>p. debtId p \<in> set (map debt_id ds)) ps"

definition selection_ok :: "app_state \<Rightarrow> bool" where
  "selection_ok s =
     (case selectedDebtId s of None \<Rightarrow> True | Some sel \<Rightarrow> sel \<in> set (map debt_id (debts s)))"

section \<open>Example data\<close>

text \<open>
  The scenario of the specification: a debt of 1000 to Ana with payments of 200, 300 and
  600, entered out of date order, and a second debt without payments.
\<close>

definition ana :: debt where
  "ana = \<lparr>debt_id = ''d1'', creditorName = ''Ana'', totalAmount = Fin 1000,
          startDate = ''2024-01-01T00:00:00.000Z''\<rparr>"

definition luis :: debt where
  "luis = \<lparr>debt_id = ''d2'', creditorName = ''Luis'', totalAmount = Fin 250,
           startDate = ''2024-01-05T00:00:00.000Z''\<rparr>"

definition pay1 :: payment where
  "pay1 = \<lparr>payment_id = ''p1'', debtId = ''d1'', date = ''2024-02-01'', amount = Fin 200,
           payment_note = []\<rparr>"

definition pay2 :: payment where
  "pay2 = \<lparr>payment_id = ''p2'', debtId = ''d1'', date = ''2024-01-15'', amount = Fin 300,
           payment_note = ''cash''\<rparr>"

definition pay3 :: payment where
  "pay3 = \<lparr>payment_id = ''p3'', debtId = ''d1'', date = ''2024-02-01'', amount = Fin 600,
           payment_note = []\<rparr>"

definition ana_selected :: app_state where
  "ana_selected =
     (mounted ''2024-03-02'' [ana, luis] [pay1, pay2, pay3])\<lparr>selectedDebtId := Some ''d1''\<rparr>"

text \<open>The values of \<open>new Date(str).getTime()\<close> at the dates of the example.\<close>

definition example_time :: "string \<Rightarrow> jsnum" where
  "example_time str =
     (if str = ''2024-01-15'' then Fin 1705276800000
      else if str = ''2024-02-01'' then Fin 1706745600000
      else NaN)"

definition example_ms :: "payment \<Rightarrow> rat" where
  "example_ms p = (if date p = ''2024-01-15'' then 1705276800000 else 1706745600000)"

text \<open>
  A session on the example: select the second debt, record a payment of 50 on it, go
  back to the list and delete the first debt.
\<close>

definition session :: "command list" where
  "session = [ClickCard ''d2'', TypePaymentAmount ''50'', TypePaymentDate ''2024-03-01'',
              SubmitAddPayment ''p4'' ''2024-03-02'', ClickBack, ClickDeleteDebt True ''d1'']"

text \<open>The example with an analysis in the cache, and with the forms filled in.\<close>

definition advice :: analysis_result where
  "advice = \<lparr>message = ''Keep going'', estimatedCompletion = None, tone = positive\<rparr>"

definition advised :: app_state where
  "advised = ana_selected\<lparr>aiAnalysis := Some advice\<rparr>"

definition create_form :: "string \<Rightarrow> app_state" where
  "create_form v = (mounted ''2024-03-02'' [] [])\<lparr>newCreditor := ''Eva'', newTotalDebt := v\<rparr>"

definition payment_form :: "string \<Rightarrow> app_state" where
  "payment_form v = ana_selected\<lparr>newPaymentAmount := v, newPaymentDate := ''2024-03-01''\<rparr>"

text \<open>
  The store of the migration example of the specification, and the store after the
  first debt and two of its payments have been saved.
\<close>

definition legacy_store :: local_storage where
  "legacy_store =
     \<lparr>debts_v1 = None, payments_v2 = None,
      settings_v1 = Some (Json \<lparr>legacy_isSet = True, legacy_creditorName = ''Ana'',
                               legacy_totalAmount = Fin 500, legacy_startDate = ''2024-01-01''\<rparr>),
      payments_v1 = Some (Json [\<lparr>legacy_id = ''p1'', legacy_date = ''2024-02-01'',
                                 legacy_amount = Fin 100, legacy_note = []\<rparr>])\<rparr>"

definition synced_store :: local_storage where
  "synced_store =
     \<lparr>debts_v1 = Some (Json [ana]), payments_v2 = Some (Json [pay1, pay2]),
      settings_v1 = None, payments_v1 = None\<rparr>"



text \<open>
  A debt of total \<open>-5\<close> as the create form stores it, selected, with one payment of 10.
\<close>

definition negative_total :: app_state where
  "negative_total =
     run [TypeCreditor ''Eva'', TypeTotalDebt ''-5'',
          SubmitCreateDebt ''d3'' ''2024-03-02T10:00:00.000Z'', ClickCard ''d3'',
          TypePaymentAmount ''10'', TypePaymentDate ''2024-02-01'',
          SubmitAddPayment ''p9'' ''2024-03-02'']
       (mounted ''2024-03-02'' [] [])"

section \<open>Remaining balance and progress\<close>

lemmas example_defs = ana_selected_def mounted_def ana_def luis_def pay1_def pay2_def pay3_def

lemma selectedDebt_Some:
  "selectedDebt s = Some d \<Longrightarrow> selectedDebtId s = Some (debt_id d) \<and> d \<in> set (debts s)"
  by (auto simp: selectedDebt_def find_Some_iff)

lemma currentDebtPayments_selected:
  "selectedDebt s = Some d \<Longrightarrow>
   currentDebtPayments s = filter (\<lambda>p. debtId p = debt_id d) (payments s)"
  by (simp add: currentDebtPayments_def selectedDebt_Some)










section \<open>Balance history of the selected debt\<close>

lemma js_le_trans: "js_le a b \<Longrightarrow> js_le b c \<Longrightarrow> js_le a c"
  by (cases a; cases b; cases c) auto

lemma js_sub_step:
  "cur \<noteq> NaN \<Longrightarrow> js_lt (Fin 0) x \<Longrightarrow> cur \<noteq> PosInf \<or> x \<noteq> PosInf \<Longrightarrow>
   js_sub cur x \<noteq> NaN \<and> js_le (js_sub cur x) cur \<and> (cur \<noteq> PosInf \<longrightarrow> js_sub cur x \<noteq> PosInf)"
  by (cases cur; cases x) (auto simp: js_sub_def js_lt_def)

lemma Math_max_mono: "js_le x y \<Longrightarrow> js_le (Math_max (Fin 0) x) (Math_max (Fin 0) y)"
  by (cases x; cases y) (auto simp: Math_max_def)

lemma Math_max_nonneg: "js_le (Fin 0) x \<Longrightarrow> Math_max (Fin 0) x = x"
  by (cases x) (auto simp: Math_max_def)

lemma length_insert_by: "length (insert_by cmp x ys) = Suc (length ys)"
  by (induction ys) auto

lemma length_stable_sort: "length (stable_sort cmp xs) = length xs"
  unfolding stable_sort_def by (induction xs) (auto simp: length_insert_by)

lemma mset_insert_by: "mset (insert_by cmp x ys) = add_mset x (mset ys)"
  by (induction ys) auto

lemma mset_stable_sort: "mset (stable_sort cmp xs) = mset xs"
  unfolding stable_sort_def by (induction xs) (auto simp: mset_insert_by)

lemma set_stable_sort: "set (stable_sort cmp xs) = set xs"
  using mset_stable_sort [of cmp xs] by (metis set_mset_mset)

lemma insert_by_date:
  assumes "getTime (date x) = Fin (k x)" "\<forall>p\<in>set ys. getTime (date p) = Fin (k p)"
  shows "insert_by (by_date getTime) x ys = insort_key k x ys"
  using assms by (induction ys) (auto simp: by_date_def js_sub_def js_lt_def)

lemma stable_sort_by_date:
  assumes "\<forall>p\<in>set xs. getTime (date p) = Fin (k p)"
  shows "stable_sort (by_date getTime) xs = sort_key k xs"
  using assms
proof (induction xs)
  case Nil
  then show ?case by (simp add: stable_sort_def)
next
  case (Cons x xs)
  then have ih: "stable_sort (by_date getTime) xs = sort_key k xs" by simp
  have "stable_sort (by_date getTime) (x # xs)
      = insert_by (by_date getTime) x (stable_sort (by_date getTime) xs)"
    by (simp add: stable_sort_def)
  also have "\<dots> = insort_key k x (sort_key k xs)"
    using Cons.prems by (subst ih) (intro insert_by_date, auto)
  finally show ?case by simp
qed

lemma length_chart_points: "length (chart_points f cur ps) = length ps"
  by (induction ps arbitrary: cur) auto

lemma chart_points_nth:
  "i < length ps \<Longrightarrow>
   chart_points f cur ps ! i =
     \<lparr>point_date = f (date (ps ! i)),
      balance = Math_max (Fin 0) (foldl js_sub cur (map amount (take (Suc i) ps))),
      paid = amount (ps ! i)\<rparr>"
proof (induction ps arbitrary: cur i)
  case Nil
  then show ?case by simp
next
  case (Cons p ps)
  show ?case
  proof (cases i)
    case 0
    then show ?thesis by simp
  next
    case (Suc j)
    with Cons.prems have "j < length ps" by simp
    from Cons.IH [OF this] Suc show ?thesis by simp
  qed
qed

lemma sortedPayments_parsed:
  assumes "\<forall>p\<in>set ps. getTime (date p) = Fin (k p)"
  shows "sortedPayments engine getTime ps = sort_key k ps"
proof -
  have "dates_parse getTime ps"
    using assms by (simp add: dates_parse_def list_all_iff)
  then show ?thesis
    using assms by (simp add: sortedPayments_def stable_sort_by_date)
qed

lemma mset_sortedPayments:
  "mset (engine ps) = mset ps \<Longrightarrow> mset (sortedPayments engine getTime ps) = mset ps"
  by (simp add: sortedPayments_def mset_stable_sort)

lemma chart_balances_bounded:
  "cur \<noteq> NaN \<Longrightarrow> \<forall>p\<in>set ps. js_lt (Fin 0) (amount p) \<Longrightarrow>
   cur \<noteq> PosInf \<or> (\<forall>p\<in>set ps. amount p \<noteq> PosInf) \<Longrightarrow>
   \<forall>b\<in>set (map balance (chart_points f cur ps)). js_le b (Math_max (Fin 0) cur)"
proof (induction ps arbitrary: cur)
  case Nil
  then show ?case by simp
next
  case (Cons p ps)
  let ?cur = "js_sub cur (amount p)"
  have st: "?cur \<noteq> NaN \<and> js_le ?cur cur \<and> (cur \<noteq> PosInf \<longrightarrow> ?cur \<noteq> PosInf)"
    using Cons.prems by (intro js_sub_step) auto
  have step: "js_le (Math_max (Fin 0) ?cur) (Math_max (Fin 0) cur)"
    using st by (intro Math_max_mono) simp
  have "\<forall>b\<in>set (map balance (chart_points f ?cur ps)). js_le b (Math_max (Fin 0) ?cur)"
    using Cons.prems st by (intro Cons.IH) auto
  then have "\<forall>b\<in>set (map balance (chart_points f ?cur ps)). js_le b (Math_max (Fin 0) cur)"
    using step js_le_trans by blast
  with step show ?case by simp
qed

lemma chart_balances_sorted:
  "cur \<noteq> NaN \<Longrightarrow> \<forall>p\<in>set ps. js_lt (Fin 0) (amount p) \<Longrightarrow>
   cur \<noteq> PosInf \<or> (\<forall>p\<in>set ps. amount p \<noteq> PosInf) \<Longrightarrow>
   sorted_wrt (\<lambda>x y. js_le y x) (map balance (chart_points f cur ps))"
proof (induction ps arbitrary: cur)
  case Nil
  then show ?case by simp
next
  case (Cons p ps)
  let ?cur = "js_sub cur (amount p)"
  have st: "?cur \<noteq> NaN \<and> js_le ?cur cur \<and> (cur \<noteq> PosInf \<longrightarrow> ?cur \<noteq> PosInf)"
    using Cons.prems by (intro js_sub_step) auto
  have "\<forall>b\<in>set (map balance (chart_points f ?cur ps)). js_le b (Math_max (Fin 0) ?cur)"
    using Cons.prems st by (intro chart_balances_bounded) auto
  moreover have "sorted_wrt (\<lambda>x y. js_le y x) (map balance (chart_points f ?cur ps))"
    using Cons.prems st by (intro Cons.IH) auto
  ultimately show ?case by simp
qed

text \<open>
  Claim C2 as stated fails. The start point carries the total as it is, not floored:
  with a total of \<open>-5\<close> and one payment of 10 the balances are \<open>-5, 0\<close>, which
  increases although the amount is positive. The dates of the points are what
  \<open>formatDate\<close> prints (here the first ten characters stand in for it), not the
  stored strings.
\<close>

theorem balance_history_increases:
  "selectedDebt negative_total =
     Some \<lparr>debt_id = ''d3'', creditorName = ''Eva'', totalAmount = Fin (- 5),
           startDate = ''2024-03-02T10:00:00.000Z''\<rparr>
   \<and> map amount (payments negative_total) = [Fin 10]
   \<and> js_lt (Fin 0) (Fin 10)
   \<and> map balance (chartData (take 10) rev example_time negative_total) = [Fin (- 5), Fin 0]
   \<and> \<not> sorted_wrt (\<lambda>x y. js_le y x)
        (map balance (chartData (take 10) rev example_time negative_total))
   \<and> map point_date (chartData (take 10) rev example_time negative_total)
        = [''2024-03-02'', ''2024-02-01'']"
proof -
  have pf: "parseFloat ''-5'' = Fin (- 5)" "parseFloat ''10'' = Fin 10"
    by code_simp+
  have n: "negative_total = (mounted ''2024-03-02''
      [\<lparr>debt_id = ''d3'', creditorName = ''Eva'', totalAmount = Fin (- 5),
        startDate = ''2024-03-02T10:00:00.000Z''\<rparr>]
      [\<lparr>payment_id = ''p9'', debtId = ''d3'', date = ''2024-02-01'', amount = Fin 10,
        payment_note = []\<rparr>])\<lparr>selectedDebtId := Some ''d3''\<rparr>"
    by (simp add: negative_total_def run_def handleCreateDebt_def selectCard_def
        handleAddPayment_def pf mounted_def)
  have sd: "selectedDebt negative_total =
     Some \<lparr>debt_id = ''d3'', creditorName = ''Eva'', totalAmount = Fin (- 5),
           startDate = ''2024-03-02T10:00:00.000Z''\<rparr>"
    by (simp add: n selectedDebt_def mounted_def)
  have cd: "chartData (take 10) rev example_time negative_total =
      [\<lparr>point_date = ''2024-03-02'', balance = Fin (- 5), paid = Fin 0\<rparr>,
       \<lparr>point_date = ''2024-02-01'', balance = Fin 0, paid = Fin 10\<rparr>]"
    by (simp only: chartData_def sd option.case)
      (simp add: n mounted_def currentDebtPayments_def sortedPayments_def dates_parse_def
        example_time_def stable_sort_def js_sub_def Math_max_def)
  show ?thesis
    by (simp add: sd cd js_lt_def) (simp add: n mounted_def)
qed

text \<open>
  Claim C2, amended. For the selected debt \<open>d\<close>, with \<open>mine\<close> its payments in the order
  of the collection: the chart data starts with the point
  \<open>(formatDate startDate, totalAmount, 0)\<close> and has one more point per payment, so its
  length is the number of payments plus one, and it is the starting point alone when
  there is no payment. The points follow the sorted payments: the point after the
  first \<open>i + 1\<close> of them carries the printed date and the amount of payment \<open>i\<close> and the
  total minus those payments, one after the other, floored at 0. The sorted payments
  are a rearrangement of \<open>mine\<close>; when every date parses (\<open>k\<close> its timestamp) they are
  the stable sort of \<open>mine\<close> by \<open>k\<close>: ascending, payments of one date in their
  original order. When the total is not negative, every amount is positive, and the
  total and an amount are not both infinite, the balances never increase along the
  series.
\<close>

theorem balance_history:
  fixes s :: app_state and d :: debt
    and formatDate :: "string \<Rightarrow> string" and engine :: "payment list \<Rightarrow> payment list"
    and getTime :: "string \<Rightarrow> jsnum" and k :: "payment \<Rightarrow> rat"
  defines "mine \<equiv> filter (\<lambda>p. debtId p = debt_id d) (payments s)"
  defines "srt \<equiv> sortedPayments engine getTime mine"
  defines "start \<equiv> \<lparr>point_date = formatDate (startDate d), balance = totalAmount d, paid = Fin 0\<rparr>"
  assumes sel: "selectedDebt s = Some d"
    and perm: "mset (engine mine) = mset mine"
  shows "currentDebtPayments s = mine
       \<and> mset srt = mset mine
       \<and> length (chartData formatDate engine getTime s) = length mine + 1
       \<and> chartData formatDate engine getTime s ! 0 = start
       \<and> (\<forall>i<length mine. chartData formatDate engine getTime s ! Suc i =
             \<lparr>point_date = formatDate (date (srt ! i)),
              balance = Math_max (Fin 0)
                (foldl js_sub (totalAmount d) (map amount (take (Suc i) srt))),
              paid = amount (srt ! i)\<rparr>)
       \<and> (mine = [] \<longrightarrow> chartData formatDate engine getTime s = [start])
       \<and> ((\<forall>p\<in>set mine. getTime (date p) = Fin (k p)) \<longrightarrow>
            srt = sort_key k mine \<and> sorted (map k srt)
            \<and> (\<forall>t. filter (\<lambda>p. k p = t) srt = filter (\<lambda>p. k p = t) mine))
       \<and> (js_le (Fin 0) (totalAmount d) \<and> (\<forall>p\<in>set mine. js_lt (Fin 0) (amount p))
            \<and> (totalAmount d \<noteq> PosInf \<or> (\<forall>p\<in>set mine. amount p \<noteq> PosInf)) \<longrightarrow>
            sorted_wrt (\<lambda>x y. js_le y x) (map balance (chartData formatDate engine getTime s)))"
proof -
  have cur: "currentDebtPayments s = mine"
    unfolding mine_def using sel by (rule currentDebtPayments_selected)
  have cd: "chartData formatDate engine getTime s =
      start # chart_points formatDate (totalAmount d) srt"
    using sel by (simp add: chartData_def cur srt_def start_def)
  have pm: "mset srt = mset mine"
    unfolding srt_def using perm by (rule mset_sortedPayments)
  then have len_srt: "length srt = length mine"
    by (rule mset_eq_length)
  from pm have set_srt: "set srt = set mine"
    by (rule mset_eq_setD)
  have len: "length (chartData formatDate engine getTime s) = length mine + 1"
    by (simp add: cd length_chart_points len_srt)
  have first: "chartData formatDate engine getTime s ! 0 = start"
    by (simp add: cd)
  have pts: "\<forall>i<length mine. chartData formatDate engine getTime s ! Suc i =
             \<lparr>point_date = formatDate (date (srt ! i)),
              balance = Math_max (Fin 0)
                (foldl js_sub (totalAmount d) (map amount (take (Suc i) srt))),
              paid = amount (srt ! i)\<rparr>"
    by (simp add: cd chart_points_nth len_srt)
  have none: "mine = [] \<longrightarrow> chartData formatDate engine getTime s = [start]"
    using len_srt by (auto simp: cd)
  have stable: "srt = sort_key k mine \<and> sorted (map k srt)
      \<and> (\<forall>t. filter (\<lambda>p. k p = t) srt = filter (\<lambda>p. k p = t) mine)"
    if "\<forall>p\<in>set mine. getTime (date p) = Fin (k p)"
  proof -
    have "srt = sort_key k mine"
      unfolding srt_def using that by (rule sortedPayments_parsed)
    then show ?thesis by (simp add: sort_key_stable)
  qed
  have mono: "sorted_wrt (\<lambda>x y. js_le y x) (map balance (chartData formatDate engine getTime s))"
    if nonneg: "js_le (Fin 0) (totalAmount d)"
      and pos: "\<forall>p\<in>set mine. js_lt (Fin 0) (amount p)"
      and inf: "totalAmount d \<noteq> PosInf \<or> (\<forall>p\<in>set mine. amount p \<noteq> PosInf)"
  proof -
    have nn: "totalAmount d \<noteq> NaN" using nonneg by auto
    have pos': "\<forall>p\<in>set srt. js_lt (Fin 0) (amount p)"
      using pos by (simp add: set_srt)
    have inf': "totalAmount d \<noteq> PosInf \<or> (\<forall>p\<in>set srt. amount p \<noteq> PosInf)"
      using inf by (simp add: set_srt)
    have "\<forall>b\<in>set (map balance (chart_points formatDate (totalAmount d) srt)).
            js_le b (Math_max (Fin 0) (totalAmount d))"
      using nn pos' inf' by (rule chart_balances_bounded)
    then have "\<forall>b\<in>set (map balance (chart_points formatDate (totalAmount d) srt)).
            js_le b (totalAmount d)"
      by (simp add: Math_max_nonneg [OF nonneg])
    moreover have "sorted_wrt (\<lambda>x y. js_le y x)
        (map balance (chart_points formatDate (totalAmount d) srt))"
      using nn pos' inf' by (rule chart_balances_sorted)
    ultimately show ?thesis by (simp add: cd start_def)
  qed
  from cur pm len first pts none stable mono show ?thesis by blast
qed

text \<open>
  The example: payments of 200 and 600 on 1 February and of 300 on 15 January give the
  balances 1000, 700, 500, 0; the two payments of 1 February keep their order.
\<close>

theorem balance_history_witness:
  "selectedDebt ana_selected = Some ana
   \<and> js_le (Fin 0) (totalAmount ana)
   \<and> list_all (\<lambda>p. example_time (date p) = Fin (example_ms p) \<and> js_lt (Fin 0) (amount p))
        [pay1, pay2, pay3]
   \<and> sortedPayments rev example_time [pay1, pay2, pay3] = [pay2, pay1, pay3]
   \<and> sort_key example_ms [pay1, pay2, pay3] = [pay2, pay1, pay3]
   \<and> map balance (chartData (\<lambda>str. str) rev example_time ana_selected)
        = [Fin 1000, Fin 700, Fin 500, Fin 0]
   \<and> map paid (chartData (\<lambda>str. str) rev example_time ana_selected)
        = [Fin 0, Fin 300, Fin 200, Fin 600]
   \<and> length (chartData (\<lambda>str. str) rev example_time ana_selected) = 3 + 1
   \<and> sorted_wrt (\<lambda>x y. js_le y x)
        (map balance (chartData (\<lambda>str. str) rev example_time ana_selected))"
proof -
  have sel: "selectedDebt ana_selected = Some ana"
    by (simp add: selectedDebt_def example_defs)
  have mine: "filter (\<lambda>p. debtId p = debt_id ana) (payments ana_selected) = [pay1, pay2, pay3]"
    by (simp add: example_defs)
  have tot: "js_le (Fin 0) (totalAmount ana)" "totalAmount ana \<noteq> PosInf"
    by (simp_all add: ana_def)
  have times: "\<forall>p\<in>set [pay1, pay2, pay3]. example_time (date p) = Fin (example_ms p)"
    by (simp add: example_time_def example_ms_def pay1_def pay2_def pay3_def)
  have pos: "\<forall>p\<in>set [pay1, pay2, pay3]. js_lt (Fin 0) (amount p)"
    by (simp add: pay1_def pay2_def pay3_def js_lt_def)
  have srt: "sort_key example_ms [pay1, pay2, pay3] = [pay2, pay1, pay3]"
    by (simp add: example_ms_def pay1_def pay2_def pay3_def)
  have "mset (rev (filter (\<lambda>p. debtId p = debt_id ana) (payments ana_selected)))
      = mset (filter (\<lambda>p. debtId p = debt_id ana) (payments ana_selected))"
    by simp
  note h = balance_history [where engine = rev and formatDate = "\<lambda>str. str"
      and getTime = example_time and k = example_ms, OF sel this, unfolded mine]
  from h times have a: "sortedPayments rev example_time [pay1, pay2, pay3] = [pay2, pay1, pay3]"
    using srt by simp
  from h tot pos have m: "sorted_wrt (\<lambda>x y. js_le y x)
        (map balance (chartData (\<lambda>str. str) rev example_time ana_selected))"
    by blast
  from h have l: "length (chartData (\<lambda>str. str) rev example_time ana_selected) = 3 + 1"
    by simp
  have cd: "chartData (\<lambda>str. str) rev example_time ana_selected =
      \<lparr>point_date = startDate ana, balance = totalAmount ana, paid = Fin 0\<rparr>
      # chart_points (\<lambda>str. str) (totalAmount ana) [pay2, pay1, pay3]"
    using sel h a by (simp add: chartData_def)
  have b: "map balance (chartData (\<lambda>str. str) rev example_time ana_selected)
        = [Fin 1000, Fin 700, Fin 500, Fin 0]"
    by (simp add: cd ana_def pay1_def pay2_def pay3_def js_sub_def Math_max_def)
  have p: "map paid (chartData (\<lambda>str. str) rev example_time ana_selected)
        = [Fin 0, Fin 300, Fin 200, Fin 600]"
    by (simp add: cd ana_def pay1_def pay2_def pay3_def)
  have la: "list_all (\<lambda>p. example_time (date p) = Fin (example_ms p) \<and> js_lt (Fin 0) (amount p))
        [pay1, pay2, pay3]"
    by (simp add: example_time_def example_ms_def pay1_def pay2_def pay3_def js_lt_def)
  from sel tot la a srt b p l m show ?thesis by simp
qed

section \<open>No orphan payments\<close>

lemma no_orphans_iff:
  "no_orphans ds ps = (\<forall>p\<in>set ps. \<exists>d\<in>set ds. debt_id d = debtId p)"
  by (force simp: no_orphans_def list_all_iff)

lemma selection_ok_iff:
  "selection_ok s = (\<forall>sel. selectedDebtId s = Some sel \<longrightarrow> (\<exists>d\<in>set (debts s). debt_id d = sel))"
  by (auto simp: selection_ok_def split: option.splits)

lemma create_preserves:
  "no_orphans (debts s) (payments s) \<Longrightarrow>
   no_orphans (debts (handleCreateDebt uuid now s)) (payments (handleCreateDebt uuid now s))"
  by (auto simp: no_orphans_iff handleCreateDebt_def)

lemma create_selection:
  "selection_ok s \<Longrightarrow> selection_ok (handleCreateDebt uuid now s)"
  by (auto simp: selection_ok_iff handleCreateDebt_def)

lemma delete_debt_preserves:
  "no_orphans (debts s) (payments s) \<Longrightarrow>
   no_orphans (debts (handleDeleteDebt c did s)) (payments (handleDeleteDebt c did s))"
  by (fastforce simp: no_orphans_iff handleDeleteDebt_def)

lemma delete_debt_selection:
  "selection_ok s \<Longrightarrow> selection_ok (handleDeleteDebt c did s)"
  by (auto simp: selection_ok_iff handleDeleteDebt_def)

lemma add_payment_preserves:
  "no_orphans (debts s) (payments s) \<Longrightarrow> selection_ok s \<Longrightarrow>
   no_orphans (debts (handleAddPayment uuid today s)) (payments (handleAddPayment uuid today s))"
  by (auto simp: no_orphans_iff selection_ok_iff handleAddPayment_def split: option.splits)

lemma add_payment_selection:
  "selection_ok s \<Longrightarrow> selection_ok (handleAddPayment uuid today s)"
  by (auto simp: selection_ok_iff handleAddPayment_def split: option.splits)

lemma delete_payment_preserves:
  "no_orphans (debts s) (payments s) \<Longrightarrow>
   no_orphans (debts (handleDeletePayment c pid s)) (payments (handleDeletePayment c pid s))"
  by (auto simp: no_orphans_iff handleDeletePayment_def)

lemma delete_payment_selection:
  "selection_ok s \<Longrightarrow> selection_ok (handleDeletePayment c pid s)"
  by (auto simp: selection_ok_iff handleDeletePayment_def)

lemma save_total_ids: "map debt_id (debts (handleSaveTotal s)) = map debt_id (debts s)"
  by (auto simp: handleSaveTotal_def Let_def split: option.splits)

lemma save_total_payments: "payments (handleSaveTotal s) = payments s"
  by (auto simp: handleSaveTotal_def Let_def split: option.splits)

lemma save_total_selected: "selectedDebtId (handleSaveTotal s) = selectedDebtId s"
  by (auto simp: handleSaveTotal_def Let_def split: option.splits)

lemma save_total_preserves:
  "no_orphans (debts s) (payments s) \<Longrightarrow>
   no_orphans (debts (handleSaveTotal s)) (payments (handleSaveTotal s))"
  by (simp only: no_orphans_def save_total_ids save_total_payments)

lemma save_total_selection:
  "selection_ok s \<Longrightarrow> selection_ok (handleSaveTotal s)"
  by (simp only: selection_ok_def save_total_ids save_total_selected)

lemma step_preserves:
  assumes "no_orphans (debts s) (payments s)" "selection_ok s"
  shows "no_orphans (debts (step c s)) (payments (step c s)) \<and> selection_ok (step c s)"
proof (cases c)
  case (ClickCard did)
  with assms show ?thesis by (auto simp: selectCard_def selection_ok_def)
next
  case ClickBack
  with assms show ?thesis by (simp add: selection_ok_def)
next
  case (SubmitCreateDebt uuid now)
  with assms show ?thesis by (simp add: create_preserves create_selection)
next
  case (ClickDeleteDebt confirmed did)
  with assms show ?thesis by (simp add: delete_debt_preserves delete_debt_selection)
next
  case (SubmitAddPayment uuid today)
  with assms show ?thesis by (simp add: add_payment_preserves add_payment_selection)
next
  case (ClickDeletePayment confirmed pid)
  with assms show ?thesis by (simp add: delete_payment_preserves delete_payment_selection)
next
  case SubmitSaveTotal
  with assms show ?thesis by (simp add: save_total_preserves save_total_selection)
qed (use assms in \<open>auto simp: selection_ok_def split: option.splits\<close>)

lemma run_preserves:
  "no_orphans (debts s) (payments s) \<Longrightarrow> selection_ok s \<Longrightarrow>
   no_orphans (debts (run cs s)) (payments (run cs s)) \<and> selection_ok (run cs s)"
  unfolding run_def
proof (induction cs arbitrary: s)
  case Nil
  then show ?case by simp
next
  case (Cons c cs)
  from step_preserves [OF Cons.prems, of c] Cons.IH [of "step c s"] show ?case by simp
qed

text \<open>
  Claim C3. From collections in which every payment refers to an existing debt, loaded
  into a freshly mounted component, every sequence of commands leads to collections
  with the same property. Step by step: every command keeps the property together with
  the validity of the selection (it is empty or the id of an existing debt), which
  holds at mount; add payment takes the debt from the selection, and the four other
  handlers keep the property from any state at all. After a confirmed deletion of a
  debt neither a debt nor a payment carries its id.
\<close>

theorem no_orphan_payments:
  "(no_orphans ds ps \<longrightarrow>
      no_orphans (debts (run cs (mounted today ds ps))) (payments (run cs (mounted today ds ps))))
   \<and> (no_orphans (debts s) (payments s) \<and> selection_ok s \<longrightarrow>
      no_orphans (debts (step c s)) (payments (step c s)) \<and> selection_ok (step c s))
   \<and> (no_orphans (debts s) (payments s) \<longrightarrow>
      no_orphans (debts (handleCreateDebt uuid now s)) (payments (handleCreateDebt uuid now s))
      \<and> no_orphans (debts (handleDeleteDebt confirmed did s))
                    (payments (handleDeleteDebt confirmed did s))
      \<and> no_orphans (debts (handleDeletePayment confirmed pid s))
                    (payments (handleDeletePayment confirmed pid s))
      \<and> no_orphans (debts (handleSaveTotal s)) (payments (handleSaveTotal s)))
   \<and> did \<notin> set (map debt_id (debts (handleDeleteDebt True did s)))
   \<and> did \<notin> set (map debtId (payments (handleDeleteDebt True did s)))"
proof -
  have "selection_ok (mounted today ds ps)"
    by (simp add: selection_ok_def mounted_def)
  moreover have "debts (mounted today ds ps) = ds" "payments (mounted today ds ps) = ps"
    by (simp_all add: mounted_def)
  ultimately have trace: "no_orphans ds ps \<longrightarrow>
      no_orphans (debts (run cs (mounted today ds ps))) (payments (run cs (mounted today ds ps)))"
    using run_preserves [of "mounted today ds ps" cs] by simp
  have cascade: "did \<notin> set (map debt_id (debts (handleDeleteDebt True did s)))"
      "did \<notin> set (map debtId (payments (handleDeleteDebt True did s)))"
    by (auto simp: handleDeleteDebt_def)
  from trace cascade show ?thesis
    by (simp add: step_preserves create_preserves delete_debt_preserves
        delete_payment_preserves save_total_preserves)
qed

text \<open>
  On the example session the payment of 50 goes to the second debt and the deletion of
  the first debt takes its three payments away.
\<close>

theorem no_orphan_payments_witness:
  "no_orphans [ana, luis] [pay1, pay2, pay3]
   \<and> debts (run session (mounted ''2024-03-02'' [ana, luis] [pay1, pay2, pay3])) = [luis]
   \<and> payments (run session (mounted ''2024-03-02'' [ana, luis] [pay1, pay2, pay3])) =
       [\<lparr>payment_id = ''p4'', debtId = ''d2'', date = ''2024-03-01'', amount = Fin 50,
         payment_note = []\<rparr>]
   \<and> no_orphans (debts (run session (mounted ''2024-03-02'' [ana, luis] [pay1, pay2, pay3])))
        (payments (run session (mounted ''2024-03-02'' [ana, luis] [pay1, pay2, pay3])))"
proof -
  have start: "no_orphans [ana, luis] [pay1, pay2, pay3]"
    by (simp add: no_orphans_def ana_def luis_def pay1_def pay2_def pay3_def)
  have amount: "parseFloat ''50'' = Fin 50"
    by code_simp
  have fin: "run session (mounted ''2024-03-02'' [ana, luis] [pay1, pay2, pay3]) =
     (mounted ''2024-03-02'' [luis]
       [\<lparr>payment_id = ''p4'', debtId = ''d2'', date = ''2024-03-01'', amount = Fin 50,
         payment_note = []\<rparr>])"
    by (simp add: run_def session_def selectCard_def handleAddPayment_def handleDeleteDebt_def
        amount mounted_def ana_def luis_def pay1_def pay2_def pay3_def)
  from no_orphan_payments [of "[ana, luis]" "[pay1, pay2, pay3]" session "''2024-03-02''"] start
  have "no_orphans (debts (run session (mounted ''2024-03-02'' [ana, luis] [pay1, pay2, pay3])))
        (payments (run session (mounted ''2024-03-02'' [ana, luis] [pay1, pay2, pay3])))"
    by blast
  with start fin show ?thesis by (simp add: mounted_def)
qed

section \<open>Deleting a debt, deleting a payment\<close>

text \<open>
  Claim C10. Deleting a debt keeps exactly the debts with another id and the payments
  of another debt, each in its order; deleting a payment keeps exactly the payments
  with another id and leaves the debts alone. Whether the user confirms or not, the
  records that are not the target are the same before and after, and a payment id that
  no payment carries leaves the payments as they were.
\<close>

theorem deletion_frame:
  "debts (handleDeleteDebt True did s) = filter (\<lambda>d. debt_id d \<noteq> did) (debts s)
   \<and> payments (handleDeleteDebt True did s) = filter (\<lambda>p. debtId p \<noteq> did) (payments s)
   \<and> filter (\<lambda>d. debt_id d \<noteq> did) (debts (handleDeleteDebt confirmed did s))
       = filter (\<lambda>d. debt_id d \<noteq> did) (debts s)
   \<and> filter (\<lambda>p. debtId p \<noteq> did) (payments (handleDeleteDebt confirmed did s))
       = filter (\<lambda>p. debtId p \<noteq> did) (payments s)
   \<and> handleDeleteDebt False did s = s
   \<and> debts (handleDeletePayment confirmed pid s) = debts s
   \<and> payments (handleDeletePayment True pid s) = filter (\<lambda>p. payment_id p \<noteq> pid) (payments s)
   \<and> filter (\<lambda>p. payment_id p \<noteq> pid) (payments (handleDeletePayment confirmed pid s))
       = filter (\<lambda>p. payment_id p \<noteq> pid) (payments s)
   \<and> handleDeletePayment False pid s = s
   \<and> (pid \<notin> set (map payment_id (payments s)) \<longrightarrow>
        payments (handleDeletePayment confirmed pid s) = payments s)"
proof -
  have absent: "payments (handleDeletePayment confirmed pid s) = payments s"
    if "pid \<notin> set (map payment_id (payments s))"
  proof -
    from that have "\<forall>p\<in>set (payments s). payment_id p \<noteq> pid" by auto
    then have "filter (\<lambda>p. payment_id p \<noteq> pid) (payments s) = payments s"
      by (simp add: filter_id_conv)
    then show ?thesis by (simp add: handleDeletePayment_def)
  qed
  show ?thesis
    using absent by (simp add: handleDeleteDebt_def handleDeletePayment_def)
qed

text \<open>Deleting an absent payment, a present one, and each of the two debts of the example.\<close>

theorem deletion_frame_witness:
  "''zz'' \<notin> set (map payment_id (payments ana_selected))
   \<and> payments (handleDeletePayment True ''zz'' ana_selected) = [pay1, pay2, pay3]
   \<and> payments (handleDeletePayment True ''p2'' ana_selected) = [pay1, pay3]
   \<and> debts (handleDeleteDebt True ''d1'' ana_selected) = [luis]
   \<and> payments (handleDeleteDebt True ''d2'' ana_selected) = [pay1, pay2, pay3]"
proof -
  have absent: "''zz'' \<notin> set (map payment_id (payments ana_selected))"
    by (simp add: example_defs)
  from deletion_frame [of "''zz''" ana_selected True "''zz''"] absent
  have "payments (handleDeletePayment True ''zz'' ana_selected) = payments ana_selected"
    by blast
  then have same: "payments (handleDeletePayment True ''zz'' ana_selected) = [pay1, pay2, pay3]"
    by (simp add: ana_selected_def mounted_def)
  have "payments (handleDeletePayment True ''p2'' ana_selected) = [pay1, pay3]"
    by (simp add: handleDeletePayment_def example_defs)
  moreover have "debts (handleDeleteDebt True ''d1'' ana_selected) = [luis]"
    by (simp add: handleDeleteDebt_def example_defs)
  moreover have "payments (handleDeleteDebt True ''d2'' ana_selected) = [pay1, pay2, pay3]"
    by (simp add: handleDeleteDebt_def ana_selected_def mounted_def pay1_def pay2_def pay3_def)
  ultimately show ?thesis using absent same by simp
qed

section \<open>The cached analysis\<close>

text \<open>
  Claim C9 as stated fails: creating a debt, and deleting one, succeed on the example
  and leave the analysis in the cache.
\<close>

theorem create_debt_keeps_analysis:
  "debts (handleCreateDebt ''d3'' ''2024-03-02T10:00:00.000Z''
            (advised\<lparr>newCreditor := ''Eva'', newTotalDebt := ''40''\<rparr>))
     = [ana, luis, \<lparr>debt_id = ''d3'', creditorName = ''Eva'', totalAmount = Fin 40,
                    startDate = ''2024-03-02T10:00:00.000Z''\<rparr>]
   \<and> aiAnalysis (handleCreateDebt ''d3'' ''2024-03-02T10:00:00.000Z''
            (advised\<lparr>newCreditor := ''Eva'', newTotalDebt := ''40''\<rparr>)) = Some advice
   \<and> debts (handleDeleteDebt True ''d1'' advised) = [luis]
   \<and> aiAnalysis (handleDeleteDebt True ''d1'' advised) = Some advice"
proof -
  have "parseFloat ''40'' = Fin 40" by code_simp
  then show ?thesis
    by (simp add: handleCreateDebt_def handleDeleteDebt_def advised_def example_defs)
qed

text \<open>
  Claim C9, amended. The three handlers that change the figures of the selected debt
  empty the cache when they go through: add payment (a debt is selected and an amount
  is typed), delete payment (confirmed) and edit total (the new total is accepted).
  Creating a debt leaves the cache as it is.
\<close>

theorem analysis_invalidated:
  "(selectedDebtId s = Some sel \<and> sel \<noteq> [] \<and> newPaymentAmount s \<noteq> [] \<longrightarrow>
      payments (handleAddPayment uuid today s) \<noteq> payments s
      \<and> aiAnalysis (handleAddPayment uuid today s) = None)
   \<and> aiAnalysis (handleDeletePayment True pid s) = None
   \<and> (selectedDebt s = Some sd \<and> editingTotalAmount s \<noteq> []
        \<and> \<not> isNaN (parseFloat (editingTotalAmount s))
        \<and> \<not> js_le (parseFloat (editingTotalAmount s)) (Fin 0) \<longrightarrow>
      aiAnalysis (handleSaveTotal s) = None)
   \<and> aiAnalysis (handleCreateDebt uuid now s) = aiAnalysis s"
  by (simp add: handleAddPayment_def handleDeletePayment_def handleSaveTotal_def
      handleCreateDebt_def Let_def)

text \<open>On the example: a payment of 50 and a new total of 1200 each empty the cache.\<close>

theorem analysis_invalidated_witness:
  "selectedDebtId (advised\<lparr>newPaymentAmount := ''50''\<rparr>) = Some ''d1''
   \<and> aiAnalysis (advised\<lparr>newPaymentAmount := ''50''\<rparr>) = Some advice
   \<and> aiAnalysis (handleAddPayment ''p4'' ''2024-03-02'' (advised\<lparr>newPaymentAmount := ''50''\<rparr>)) = None
   \<and> selectedDebt (advised\<lparr>editingTotalAmount := ''1200''\<rparr>) = Some ana
   \<and> parseFloat ''1200'' = Fin 1200
   \<and> aiAnalysis (handleSaveTotal (advised\<lparr>editingTotalAmount := ''1200''\<rparr>)) = None"
proof -
  have sel: "selectedDebtId (advised\<lparr>newPaymentAmount := ''50''\<rparr>) = Some ''d1''"
    by (simp add: advised_def ana_selected_def)
  have before: "aiAnalysis (advised\<lparr>newPaymentAmount := ''50''\<rparr>) = Some advice"
    by (simp add: advised_def)
  have sd: "selectedDebt (advised\<lparr>editingTotalAmount := ''1200''\<rparr>) = Some ana"
    by (simp add: selectedDebt_def advised_def example_defs)
  have pf: "parseFloat ''1200'' = Fin 1200"
    by code_simp
  from analysis_invalidated [of "advised\<lparr>newPaymentAmount := ''50''\<rparr>" "''d1''" "''p4''" "''2024-03-02''"] sel
  have a: "aiAnalysis (handleAddPayment ''p4'' ''2024-03-02'' (advised\<lparr>newPaymentAmount := ''50''\<rparr>)) = None"
    by simp
  from analysis_invalidated [of "advised\<lparr>editingTotalAmount := ''1200''\<rparr>" _ _ _ _ ana] sd pf
  have b: "aiAnalysis (handleSaveTotal (advised\<lparr>editingTotalAmount := ''1200''\<rparr>)) = None"
    by (simp add: isNaN_def)
  from sel before a sd pf b show ?thesis by simp
qed

section \<open>Editing the total\<close>

text \<open>
  Claim C7 as stated fails: the text \<open>Infinity\<close> is not a finite number, the guard lets
  it through and the selected debt gets an infinite total.
\<close>

theorem save_total_accepts_infinity:
  "selectedDebt (ana_selected\<lparr>editingTotalAmount := ''Infinity''\<rparr>) = Some ana
   \<and> parseFloat ''Infinity'' = PosInf
   \<and> \<not> is_finite (parseFloat ''Infinity'')
   \<and> map totalAmount (debts ana_selected) = [Fin 1000, Fin 250]
   \<and> map totalAmount (debts (handleSaveTotal (ana_selected\<lparr>editingTotalAmount := ''Infinity''\<rparr>)))
        = [PosInf, Fin 250]"
proof -
  have pf: "parseFloat ''Infinity'' = PosInf"
    by (simp add: parseFloat_def parse_unsigned_def is_ws_def)
  have sd: "selectedDebt (ana_selected\<lparr>editingTotalAmount := ''Infinity''\<rparr>) = Some ana"
    by (simp add: selectedDebt_def example_defs)
  have "map totalAmount (debts (handleSaveTotal (ana_selected\<lparr>editingTotalAmount := ''Infinity''\<rparr>)))
        = [PosInf, Fin 250]"
    by (simp add: handleSaveTotal_def sd pf isNaN_def) (simp add: example_defs)
  with pf sd show ?thesis by (simp add: example_defs)
qed

lemma save_total_rejected:
  "selectedDebt s = None \<or> editingTotalAmount s = []
   \<or> isNaN (parseFloat (editingTotalAmount s)) \<or> js_le (parseFloat (editingTotalAmount s)) (Fin 0)
   \<Longrightarrow> handleSaveTotal s = s"
  by (auto simp: handleSaveTotal_def Let_def split: option.splits)

lemma save_total_accepted:
  "selectedDebt s = Some sd \<Longrightarrow> editingTotalAmount s \<noteq> [] \<Longrightarrow>
   \<not> isNaN (parseFloat (editingTotalAmount s)) \<Longrightarrow>
   \<not> js_le (parseFloat (editingTotalAmount s)) (Fin 0) \<Longrightarrow>
   debts (handleSaveTotal s) =
     map (\<lambda>d. if debt_id d = debt_id sd then d\<lparr>totalAmount := parseFloat (editingTotalAmount s)\<rparr> else d)
       (debts s)"
  by (simp add: handleSaveTotal_def Let_def)

lemma save_total_other_fields:
  "map debt_id (debts (handleSaveTotal s)) = map debt_id (debts s)
   \<and> map creditorName (debts (handleSaveTotal s)) = map creditorName (debts s)
   \<and> map startDate (debts (handleSaveTotal s)) = map startDate (debts s)
   \<and> payments (handleSaveTotal s) = payments s"
  by (auto simp: handleSaveTotal_def Let_def split: option.splits)

lemma not_nan_positive_cases:
  "(\<not> isNaN x \<and> \<not> js_le x (Fin 0)) = (x = PosInf \<or> (\<exists>a>0. x = Fin a))"
  by (cases x) (auto simp: isNaN_def)

text \<open>
  Claim C7, amended. A new total that is \<open>NaN\<close> or not greater than zero is rejected and
  the state stays as it is, as it does when no debt is selected or the field is empty.
  Every other new total, a positive finite number or positive infinity, is accepted:
  the debts with the id of the selected debt get it as their total and every other
  debt stays as it is. In every case the ids, creditor names and start dates of all
  debts and the payments are unchanged.
\<close>

theorem save_total_validation:
  fixes s :: app_state
  defines "newTotal \<equiv> parseFloat (editingTotalAmount s)"
  shows "(isNaN newTotal \<or> js_le newTotal (Fin 0) \<longrightarrow> handleSaveTotal s = s)
       \<and> (selectedDebt s = None \<or> editingTotalAmount s = [] \<longrightarrow> handleSaveTotal s = s)
       \<and> (selectedDebt s = Some sd \<and> editingTotalAmount s \<noteq> []
            \<and> (newTotal = PosInf \<or> (\<exists>a>0. newTotal = Fin a)) \<longrightarrow>
          debts (handleSaveTotal s) =
            map (\<lambda>d. if debt_id d = debt_id sd then d\<lparr>totalAmount := newTotal\<rparr> else d) (debts s)
          \<and> map totalAmount (debts (handleSaveTotal s)) =
            map (\<lambda>d. if debt_id d = debt_id sd then newTotal else totalAmount d) (debts s))
       \<and> map debt_id (debts (handleSaveTotal s)) = map debt_id (debts s)
       \<and> map creditorName (debts (handleSaveTotal s)) = map creditorName (debts s)
       \<and> map startDate (debts (handleSaveTotal s)) = map startDate (debts s)
       \<and> payments (handleSaveTotal s) = payments s"
proof -
  have rej: "isNaN newTotal \<or> js_le newTotal (Fin 0) \<longrightarrow> handleSaveTotal s = s"
    unfolding newTotal_def using save_total_rejected [of s] by blast
  have none: "selectedDebt s = None \<or> editingTotalAmount s = [] \<longrightarrow> handleSaveTotal s = s"
    using save_total_rejected [of s] by blast
  have acc: "debts (handleSaveTotal s) =
            map (\<lambda>d. if debt_id d = debt_id sd then d\<lparr>totalAmount := newTotal\<rparr> else d) (debts s)
          \<and> map totalAmount (debts (handleSaveTotal s)) =
            map (\<lambda>d. if debt_id d = debt_id sd then newTotal else totalAmount d) (debts s)"
    if "selectedDebt s = Some sd" "editingTotalAmount s \<noteq> []"
      "newTotal = PosInf \<or> (\<exists>a>0. newTotal = Fin a)"
  proof -
    from that(3) have ok: "\<not> isNaN newTotal \<and> \<not> js_le newTotal (Fin 0)"
      by (simp add: not_nan_positive_cases)
    then have "debts (handleSaveTotal s) =
        map (\<lambda>d. if debt_id d = debt_id sd then d\<lparr>totalAmount := newTotal\<rparr> else d) (debts s)"
      unfolding newTotal_def using that(1,2) by (intro save_total_accepted) simp_all
    then show ?thesis by (simp add: comp_def if_distrib cong: if_cong)
  qed
  from rej none acc save_total_other_fields [of s] show ?thesis by blast
qed

text \<open>On the example: 1200 is accepted, \<open>-5\<close> and \<open>abc\<close> are rejected.\<close>

theorem save_total_validation_witness:
  "selectedDebt (ana_selected\<lparr>editingTotalAmount := ''1200''\<rparr>) = Some ana
   \<and> parseFloat ''1200'' = Fin 1200
   \<and> map totalAmount (debts (handleSaveTotal (ana_selected\<lparr>editingTotalAmount := ''1200''\<rparr>)))
        = [Fin 1200, Fin 250]
   \<and> parseFloat ''-5'' = Fin (- 5)
   \<and> handleSaveTotal (ana_selected\<lparr>editingTotalAmount := ''-5''\<rparr>)
        = ana_selected\<lparr>editingTotalAmount := ''-5''\<rparr>
   \<and> parseFloat ''abc'' = NaN
   \<and> handleSaveTotal (ana_selected\<lparr>editingTotalAmount := ''abc''\<rparr>)
        = ana_selected\<lparr>editingTotalAmount := ''abc''\<rparr>"
proof -
  have sd: "selectedDebt (ana_selected\<lparr>editingTotalAmount := ''1200''\<rparr>) = Some ana"
    by (simp add: selectedDebt_def example_defs)
  have p1: "parseFloat ''1200'' = Fin 1200" by code_simp
  have p2: "parseFloat ''-5'' = Fin (- 5)" by code_simp
  have p3: "parseFloat ''abc'' = NaN" by code_simp
  from save_total_validation [of "ana_selected\<lparr>editingTotalAmount := ''1200''\<rparr>" ana] sd p1
  have a: "map totalAmount (debts (handleSaveTotal (ana_selected\<lparr>editingTotalAmount := ''1200''\<rparr>)))
        = [Fin 1200, Fin 250]"
    by (simp add: example_defs)
  from save_total_validation [of "ana_selected\<lparr>editingTotalAmount := ''-5''\<rparr>"] p2
  have b: "handleSaveTotal (ana_selected\<lparr>editingTotalAmount := ''-5''\<rparr>)
        = ana_selected\<lparr>editingTotalAmount := ''-5''\<rparr>"
    by simp
  from save_total_validation [of "ana_selected\<lparr>editingTotalAmount := ''abc''\<rparr>"] p3
  have c: "handleSaveTotal (ana_selected\<lparr>editingTotalAmount := ''abc''\<rparr>)
        = ana_selected\<lparr>editingTotalAmount := ''abc''\<rparr>"
    by (simp add: isNaN_def)
  from sd p1 a p2 b p3 c show ?thesis by simp
qed

section \<open>Creating a debt\<close>

text \<open>
  What \<open>handleCreateDebt\<close> does: nothing when a field is empty, otherwise one debt is
  appended whose total is whatever \<open>parseFloat\<close> reads.
\<close>

lemma create_debt_behaviour:
  "(newCreditor s = [] \<or> newTotalDebt s = [] \<longrightarrow> handleCreateDebt uuid now s = s)
   \<and> (newCreditor s \<noteq> [] \<and> newTotalDebt s \<noteq> [] \<longrightarrow>
        debts (handleCreateDebt uuid now s) =
          debts s @ [\<lparr>debt_id = uuid, creditorName = newCreditor s,
                      totalAmount = parseFloat (newTotalDebt s), startDate = now\<rparr>])
   \<and> payments (handleCreateDebt uuid now s) = payments s"
  by (simp add: handleCreateDebt_def)

text \<open>
  Claim C5 fails on the code: with a creditor name and the total \<open>-5\<close>, \<open>0\<close> or \<open>abc\<close>
  typed in, the handler appends a debt whose total is negative, zero or \<open>NaN\<close>. The
  handler for editing the total rejects the same three texts.
\<close>

theorem create_debt_unvalidated:
  "map totalAmount (debts (handleCreateDebt ''d3'' ''2024-03-02T10:00:00.000Z'' (create_form ''-5'')))
     = [Fin (- 5)]
   \<and> map totalAmount (debts (handleCreateDebt ''d3'' ''2024-03-02T10:00:00.000Z'' (create_form ''0'')))
     = [Fin 0]
   \<and> map totalAmount (debts (handleCreateDebt ''d3'' ''2024-03-02T10:00:00.000Z'' (create_form ''abc'')))
     = [NaN]
   \<and> debts (create_form ''-5'') = []
   \<and> handleSaveTotal (ana_selected\<lparr>editingTotalAmount := ''-5''\<rparr>)
       = ana_selected\<lparr>editingTotalAmount := ''-5''\<rparr>
   \<and> handleSaveTotal (ana_selected\<lparr>editingTotalAmount := ''0''\<rparr>)
       = ana_selected\<lparr>editingTotalAmount := ''0''\<rparr>
   \<and> handleSaveTotal (ana_selected\<lparr>editingTotalAmount := ''abc''\<rparr>)
       = ana_selected\<lparr>editingTotalAmount := ''abc''\<rparr>"
proof -
  have pf: "parseFloat ''-5'' = Fin (- 5)" "parseFloat ''0'' = Fin 0" "parseFloat ''abc'' = NaN"
    by code_simp+
  have created: "map totalAmount (debts (handleCreateDebt ''d3'' ''2024-03-02T10:00:00.000Z''
        (create_form v))) = [parseFloat v]" if "v \<noteq> []" for v
    using that by (simp add: handleCreateDebt_def create_form_def mounted_def)
  have rejected: "handleSaveTotal (ana_selected\<lparr>editingTotalAmount := v\<rparr>)
       = ana_selected\<lparr>editingTotalAmount := v\<rparr>"
    if "isNaN (parseFloat v) \<or> js_le (parseFloat v) (Fin 0)" for v
    using that by (intro save_total_rejected) simp
  have "debts (create_form ''-5'') = []"
    by (simp add: create_form_def mounted_def)
  then show ?thesis
    using created [of "''-5''"] created [of "''0''"] created [of "''abc''"]
      rejected [of "''-5''"] rejected [of "''0''"] rejected [of "''abc''"]
    by (simp add: pf isNaN_def)
qed

section \<open>Adding a payment\<close>

text \<open>
  What \<open>handleAddPayment\<close> does: nothing when no debt is selected or the amount field is
  empty, otherwise one payment for the selected debt is appended whose amount is
  whatever \<open>parseFloat\<close> reads.
\<close>

lemma add_payment_behaviour:
  "(selectedDebtId s = None \<or> selectedDebtId s = Some [] \<or> newPaymentAmount s = [] \<longrightarrow>
      handleAddPayment uuid today s = s)
   \<and> (selectedDebtId s = Some sel \<and> sel \<noteq> [] \<and> newPaymentAmount s \<noteq> [] \<longrightarrow>
        payments (handleAddPayment uuid today s) =
          payments s @ [\<lparr>payment_id = uuid, debtId = sel, date = newPaymentDate s,
                         amount = parseFloat (newPaymentAmount s),
                         payment_note = newPaymentNote s\<rparr>])
   \<and> debts (handleAddPayment uuid today s) = debts s"
  by (auto simp: handleAddPayment_def split: option.splits)

text \<open>
  Claim C6 fails on the code: with the first debt of the example selected and the
  amount \<open>-5\<close>, \<open>0\<close> or \<open>abc\<close> typed in, the handler appends a payment whose amount is
  negative, zero or \<open>NaN\<close>.
\<close>

theorem add_payment_unvalidated:
  "map amount (payments (handleAddPayment ''p4'' ''2024-03-02'' (payment_form ''-5'')))
     = [Fin 200, Fin 300, Fin 600, Fin (- 5)]
   \<and> map amount (payments (handleAddPayment ''p4'' ''2024-03-02'' (payment_form ''0'')))
     = [Fin 200, Fin 300, Fin 600, Fin 0]
   \<and> map amount (payments (handleAddPayment ''p4'' ''2024-03-02'' (payment_form ''abc'')))
     = [Fin 200, Fin 300, Fin 600, NaN]
   \<and> selectedDebt (payment_form ''-5'') = Some ana"
proof -
  have "parseFloat ''-5'' = Fin (- 5)" "parseFloat ''0'' = Fin 0" "parseFloat ''abc'' = NaN"
    by code_simp+
  then show ?thesis
    by (simp add: handleAddPayment_def payment_form_def selectedDebt_def example_defs)
qed

section \<open>Migration from the legacy format\<close>

lemma migrate_payment_fields:
  "map payment_id (map (migrate_payment newId) ops) = map legacy_id ops
   \<and> map date (map (migrate_payment newId) ops) = map legacy_date ops
   \<and> map amount (map (migrate_payment newId) ops) = map legacy_amount ops
   \<and> map payment_note (map (migrate_payment newId) ops) = map legacy_note ops
   \<and> list_all (\<lambda>p. debtId p = newId) (map (migrate_payment newId) ops)"
  by (simp add: migrate_payment_def comp_def list_all_iff)

text \<open>
  Claim C4 as stated fails: with the legacy settings of the example and a legacy
  payments text that does not parse, the \<open>catch\<close> block ends the migration; no debt is
  produced and nothing is written.
\<close>

theorem migration_malformed_payments:
  "\<not> truthy (debts_v1 (legacy_store\<lparr>payments_v1 := Some Malformed\<rparr>))
   \<and> settings_v1 (legacy_store\<lparr>payments_v1 := Some Malformed\<rparr>) =
      Some (Json \<lparr>legacy_isSet = True, legacy_creditorName = ''Ana'',
                  legacy_totalAmount = Fin 500, legacy_startDate = ''2024-01-01''\<rparr>)
   \<and> initialize ''d1'' (legacy_store\<lparr>payments_v1 := Some Malformed\<rparr>) (mounted ''2024-03-02'' [] [])
      = Inr (mounted ''2024-03-02'' [] [], legacy_store\<lparr>payments_v1 := Some Malformed\<rparr>)
   \<and> debts (mounted ''2024-03-02'' [] []) = []"
  by (simp add: initialize_def migratedPayments_def truthy_def legacy_store_def mounted_def)

text \<open>
  Claim C4, amended. When the store has no current debts, the legacy settings parse
  with \<open>isSet\<close> true, and the legacy payments are absent or parse, the initialisation
  produces exactly one debt, with the generated id and the creditor name, total and
  start date of the legacy settings, and one payment per legacy payment, in order,
  with the id of that debt and the id, date, amount and note of the legacy payment.
  Both collections are written under the current keys at once and the legacy keys keep
  their contents.
\<close>

theorem migration:
  fixes st :: local_storage and s :: app_state and newId :: string
  assumes "\<not> truthy (debts_v1 st)"
    and "settings_v1 st = Some (Json oldSettings)"
    and "legacy_isSet oldSettings"
    and "payments_v1 st \<noteq> Some Malformed"
  defines "oldPayments \<equiv> (case payments_v1 st of Some (Json ops) \<Rightarrow> ops | _ \<Rightarrow> [])"
  defines "migratedDebt \<equiv>
     \<lparr>debt_id = newId, creditorName = legacy_creditorName oldSettings,
      totalAmount = legacy_totalAmount oldSettings, startDate = legacy_startDate oldSettings\<rparr>"
  shows "initialize newId st s =
           Inr (s\<lparr>debts := [migratedDebt], payments := map (migrate_payment newId) oldPayments\<rparr>,
                st\<lparr>debts_v1 := Some (Json [migratedDebt]),
                   payments_v2 := Some (Json (map (migrate_payment newId) oldPayments))\<rparr>)
       \<and> length (map (migrate_payment newId) oldPayments) = length oldPayments
       \<and> map payment_id (map (migrate_payment newId) oldPayments) = map legacy_id oldPayments
       \<and> map date (map (migrate_payment newId) oldPayments) = map legacy_date oldPayments
       \<and> map amount (map (migrate_payment newId) oldPayments) = map legacy_amount oldPayments
       \<and> map payment_note (map (migrate_payment newId) oldPayments) = map legacy_note oldPayments
       \<and> list_all (\<lambda>p. debtId p = newId) (map (migrate_payment newId) oldPayments)
       \<and> (\<forall>s' st'. initialize newId st s = Inr (s', st') \<longrightarrow>
            settings_v1 st' = settings_v1 st \<and> payments_v1 st' = payments_v1 st
            \<and> debts_v1 st' = Some (Json (debts s')) \<and> payments_v2 st' = Some (Json (payments s')))"
proof -
  have t: "truthy (settings_v1 st)"
    using assms(2) by (simp add: truthy_def)
  have mp: "migratedPayments newId st = Some (map (migrate_payment newId) oldPayments)"
  proof (cases "payments_v1 st")
    case None
    then show ?thesis by (simp add: migratedPayments_def truthy_def oldPayments_def)
  next
    case (Some b)
    with assms(4) show ?thesis
      by (cases b) (simp_all add: migratedPayments_def truthy_def oldPayments_def)
  qed
  have init: "initialize newId st s =
           Inr (s\<lparr>debts := [migratedDebt], payments := map (migrate_payment newId) oldPayments\<rparr>,
                st\<lparr>debts_v1 := Some (Json [migratedDebt]),
                   payments_v2 := Some (Json (map (migrate_payment newId) oldPayments))\<rparr>)"
    using assms(1-3) t by (simp add: initialize_def mp Let_def migratedDebt_def)
  show ?thesis
    using migrate_payment_fields [of newId oldPayments] by (simp add: init)
qed

text \<open>The migration example of the specification.\<close>

theorem migration_witness:
  "\<not> truthy (debts_v1 legacy_store)
   \<and> initialize ''d1'' legacy_store (mounted ''2024-03-02'' [] []) =
      Inr (mounted ''2024-03-02''
             [\<lparr>debt_id = ''d1'', creditorName = ''Ana'', totalAmount = Fin 500,
               startDate = ''2024-01-01''\<rparr>]
             [\<lparr>payment_id = ''p1'', debtId = ''d1'', date = ''2024-02-01'', amount = Fin 100,
               payment_note = []\<rparr>],
           legacy_store
             \<lparr>debts_v1 := Some (Json [\<lparr>debt_id = ''d1'', creditorName = ''Ana'',
                                        totalAmount = Fin 500, startDate = ''2024-01-01''\<rparr>]),
              payments_v2 := Some (Json [\<lparr>payment_id = ''p1'', debtId = ''d1'',
                                           date = ''2024-02-01'', amount = Fin 100,
                                           payment_note = []\<rparr>])\<rparr>)"
proof -
  have a: "\<not> truthy (debts_v1 legacy_store)"
    by (simp add: truthy_def legacy_store_def)
  have b: "settings_v1 legacy_store =
      Some (Json \<lparr>legacy_isSet = True, legacy_creditorName = ''Ana'',
                  legacy_totalAmount = Fin 500, legacy_startDate = ''2024-01-01''\<rparr>)"
    by (simp add: legacy_store_def)
  have c: "payments_v1 legacy_store =
      Some (Json [\<lparr>legacy_id = ''p1'', legacy_date = ''2024-02-01'',
                   legacy_amount = Fin 100, legacy_note = []\<rparr>])"
    by (simp add: legacy_store_def)
  from migration [OF a b, of "''d1''" "mounted ''2024-03-02'' [] []"] a c
  show ?thesis by (simp add: mounted_def migrate_payment_def)
qed

section \<open>Persistence\<close>

text \<open>
  Claim C8 fails on the code. The store holds the first debt of the example and two of
  its payments, as the effects wrote them. Deleting that debt empties both collections;
  the first effect then writes the empty list of debts, the second skips its write
  because both collections are empty, and the payments key keeps the two payments. The
  next start loads them back without their debt.
\<close>

theorem stale_payments_after_last_debt:
  "run_effects True False (mounted ''2024-03-02'' [ana] [pay1, pay2])
      \<lparr>debts_v1 = None, payments_v2 = None, settings_v1 = None, payments_v1 = None\<rparr> = synced_store
   \<and> debts (handleDeleteDebt True ''d1'' (mounted ''2024-03-02'' [ana] [pay1, pay2])) = []
   \<and> payments (handleDeleteDebt True ''d1'' (mounted ''2024-03-02'' [ana] [pay1, pay2])) = []
   \<and> run_effects True True (handleDeleteDebt True ''d1'' (mounted ''2024-03-02'' [ana] [pay1, pay2]))
        synced_store
      = synced_store\<lparr>debts_v1 := Some (Json [])\<rparr>
   \<and> payments_v2 (run_effects True True
        (handleDeleteDebt True ''d1'' (mounted ''2024-03-02'' [ana] [pay1, pay2])) synced_store)
      = Some (Json [pay1, pay2])
   \<and> initialize ''d9'' (synced_store\<lparr>debts_v1 := Some (Json [])\<rparr>) (mounted ''2024-03-03'' [] [])
      = Inr (mounted ''2024-03-03'' [] [pay1, pay2], synced_store\<lparr>debts_v1 := Some (Json [])\<rparr>)"
  by (simp add: run_effects_def persistDebts_def persistPayments_def handleDeleteDebt_def
      initialize_def truthy_def synced_store_def mounted_def ana_def pay1_def pay2_def)

end
